theory Spec2Isabelle
  imports Complex_Main "HOL-Library.Log_Nat"
begin

section \<open>Floating-point values\<close>

text \<open>
  The module \<^verbatim>\<open>color_utils.py\<close> works on numpy arrays whose elements are 8-bit unsigned
  integers or IEEE 754 binary floating-point numbers.  An element is modelled by its exact
  value: a rational number, one of the two infinities, or NaN.  (The sign of a zero is not
  modelled; nothing below can observe it.)  An 8-bit value \<open>n\<close> is \<open>Fin (of_nat n)\<close>.
\<close>

datatype fval = NaN | NInf | Fin rat | PInf

text \<open>Comparisons as IEEE 754 and Python define them: every comparison with NaN is false.\<close>

fun fle :: "fval \<Rightarrow> fval \<Rightarrow> bool" where
  "fle (Fin a) (Fin b) = (a \<le> b)"
| "fle NaN _ = False"
| "fle _ NaN = False"
| "fle NInf _ = True"
| "fle _ PInf = True"
| "fle _ _ = False"

fun flt :: "fval \<Rightarrow> fval \<Rightarrow> bool" where
  "flt (Fin a) (Fin b) = (a < b)"
| "flt NaN _ = False"
| "flt _ NaN = False"
| "flt PInf _ = False"
| "flt _ NInf = False"
| "flt _ _ = True"

subsection \<open>Rounding to a binary format\<close>

text \<open>
  \<open>floor_log2 q\<close> is the integer \<open>k\<close> with \<open>2^k \<le> q < 2^(k+1)\<close>, for \<open>q > 0\<close>.
  \<open>rhe\<close> rounds to the nearest integer, ties to the even one.
  \<open>fround p emax\<close> is round-to-nearest-even into the binary format with \<open>p\<close> significant
  bits and largest exponent \<open>emax\<close> (gradual underflow, overflow to an infinity).
\<close>

definition floor_log2 :: "rat \<Rightarrow> int" where
  "floor_log2 q = (if 1 \<le> q then bitlen \<lfloor>q\<rfloor> - 1 else - bitlen (\<lceil>1 / q\<rceil> - 1))"

definition rhe :: "rat \<Rightarrow> int" where
  "rhe q = (let f = \<lfloor>q\<rfloor>; r = q - of_int f in
     if r < 1 / 2 then f else if 1 / 2 < r then f + 1 else if even f then f else f + 1)"

definition fexp :: "nat \<Rightarrow> int \<Rightarrow> rat \<Rightarrow> int" where
  "fexp p emax q = max (floor_log2 \<bar>q\<bar> - (int p - 1)) (2 - emax - int p)"

definition fround :: "nat \<Rightarrow> int \<Rightarrow> rat \<Rightarrow> fval" where
  "fround p emax q =
     (if q = 0 then Fin 0
      else let e = fexp p emax q; r = of_int (rhe (q / 2 powi e)) * 2 powi e
           in if 2 powi (emax + 1) \<le> \<bar>r\<bar> then (if 0 < q then PInf else NInf) else Fin r)"

subsection \<open>Element types\<close>

datatype np_dtype = UInt8 | Float16 | Float32 | Float64

fun is_floating :: "np_dtype \<Rightarrow> bool" where
  "is_floating UInt8 = False"
| "is_floating _ = True"

text \<open>\<open>fl d\<close> rounds an exact result into the float type \<open>d\<close>.\<close>

fun fl :: "np_dtype \<Rightarrow> rat \<Rightarrow> fval" where
  "fl Float16 q = fround 11 15 q"
| "fl Float32 q = fround 24 127 q"
| "fl Float64 q = fround 53 1023 q"
| "fl UInt8 q = Fin q"

fun astype_f :: "np_dtype \<Rightarrow> fval \<Rightarrow> fval" where
  "astype_f d (Fin q) = fl d q"
| "astype_f d v = v"

fun fneg :: "fval \<Rightarrow> fval" where
  "fneg (Fin q) = Fin (- q)"
| "fneg PInf = NInf"
| "fneg NInf = PInf"
| "fneg NaN = NaN"

fun fadd :: "np_dtype \<Rightarrow> fval \<Rightarrow> fval \<Rightarrow> fval" where
  "fadd d (Fin a) (Fin b) = fl d (a + b)"
| "fadd d NaN _ = NaN"
| "fadd d _ NaN = NaN"
| "fadd d PInf NInf = NaN"
| "fadd d NInf PInf = NaN"
| "fadd d PInf _ = PInf"
| "fadd d _ PInf = PInf"
| "fadd d NInf _ = NInf"
| "fadd d _ NInf = NInf"

definition fsub :: "np_dtype \<Rightarrow> fval \<Rightarrow> fval \<Rightarrow> fval" where
  "fsub d a b = fadd d a (fneg b)"

fun fsgn_mul :: "fval \<Rightarrow> rat \<Rightarrow> fval" where
  "fsgn_mul v s = (if s = 0 then NaN else if 0 < s then v else fneg v)"

fun fmul :: "np_dtype \<Rightarrow> fval \<Rightarrow> fval \<Rightarrow> fval" where
  "fmul d (Fin a) (Fin b) = fl d (a * b)"
| "fmul d NaN _ = NaN"
| "fmul d _ NaN = NaN"
| "fmul d (Fin a) v = fsgn_mul v a"
| "fmul d v (Fin b) = fsgn_mul v b"
| "fmul d PInf v = v"
| "fmul d NInf v = fneg v"

text \<open>\<^verbatim>\<open>np.clip(x, lo, hi)\<close> is \<^verbatim>\<open>minimum(maximum(x, lo), hi)\<close>; NaN passes through.\<close>

fun np_clip :: "fval \<Rightarrow> rat \<Rightarrow> rat \<Rightarrow> fval" where
  "np_clip (Fin q) lo hi = Fin (min (max q lo) hi)"
| "np_clip NInf lo hi = Fin (min lo hi)"
| "np_clip PInf lo hi = Fin hi"
| "np_clip NaN lo hi = NaN"

text \<open>\<^verbatim>\<open>ndarray.round()\<close> rounds to the nearest integer, ties to even.\<close>

fun np_rint :: "fval \<Rightarrow> fval" where
  "np_rint (Fin q) = Fin (of_int (rhe q))"
| "np_rint v = v"

text \<open>
  Python's \<^verbatim>\<open>round(x, nd)\<close> on a float: the exact value is rounded to \<open>nd\<close> decimals
  (ties to even) and the decimal is converted back to the nearest double.
\<close>

fun py_round :: "nat \<Rightarrow> fval \<Rightarrow> fval" where
  "py_round nd (Fin q) = fround 53 1023 (of_int (rhe (q * 10 ^ nd)) / 10 ^ nd)"
| "py_round nd v = v"

section \<open>Arrays, exceptions and the external libraries\<close>

text \<open>An array: its element type, its shape, and its elements in row-major order.\<close>

record ndarray =
  dtype :: np_dtype
  shape :: "nat list"
  data :: "fval list"

definition ndim :: "ndarray \<Rightarrow> nat" where
  "ndim img = length (shape img)"

text \<open>
  The exceptions that can reach a caller.  \<open>ShapeError\<close> and \<open>UnsupportedConversion\<close> are the
  two \<^verbatim>\<open>ValueError\<close>s the module raises itself, with the values their messages name;
  the others are raised by numpy and OpenCV.
\<close>

datatype pyexc =
    ShapeError "nat list"
  | UnsupportedConversion string string
  | ZeroSizeReduction
  | BroadcastError
  | Cv2Error

definition bind_exc :: "'e + 'a \<Rightarrow> ('a \<Rightarrow> 'e + 'b) \<Rightarrow> 'e + 'b" where
  "bind_exc m f = (case m of Inl e \<Rightarrow> Inl e | Inr x \<Rightarrow> f x)"

datatype cvcode =
    COLOR_BGR2HSV | COLOR_BGR2Lab | COLOR_BGR2GRAY
  | COLOR_HSV2BGR | COLOR_Lab2BGR | COLOR_GRAY2BGR
  | COLOR_YCrCb2BGR | COLOR_BGR2YCrCb

text \<open>
  What the module takes from outside and this development does not fix:
  \<^item> \<open>cvtColor\<close>: OpenCV's colour conversion;
  \<^item> \<open>mean_f32\<close>: numpy's mean of a float32 array (its summation order, and so its
    rounding, is numpy's own);
  \<^item> \<open>cast_oor\<close>: the 8-bit value the hardware gives when a float that is NaN, infinite
    or outside the 8-bit range is cast to \<^verbatim>\<open>uint8\<close>.
\<close>

record env =
  cvtColor :: "cvcode \<Rightarrow> ndarray \<Rightarrow> pyexc + ndarray"
  mean_f32 :: "fval list \<Rightarrow> fval"
  cast_oor :: "fval \<Rightarrow> nat"

text \<open>\<^verbatim>\<open>astype(np.uint8)\<close> of a float: truncation towards zero where the result fits.\<close>

definition astype_u8 :: "env \<Rightarrow> fval \<Rightarrow> fval" where
  "astype_u8 env v =
     (case v of
        Fin q \<Rightarrow> if - 1 < q \<and> q < 256 then Fin (of_nat (nat \<lfloor>q\<rfloor>))
                 else Fin (of_nat (cast_oor env v mod 256))
      | _ \<Rightarrow> Fin (of_nat (cast_oor env v mod 256)))"

subsection \<open>Reductions\<close>

fun fmin2 :: "fval \<Rightarrow> fval \<Rightarrow> fval" where
  "fmin2 a b = (if a = NaN \<or> b = NaN then NaN else if fle a b then a else b)"

fun fmax2 :: "fval \<Rightarrow> fval \<Rightarrow> fval" where
  "fmax2 a b = (if a = NaN \<or> b = NaN then NaN else if fle a b then b else a)"

text \<open>\<^verbatim>\<open>np.min\<close> and \<^verbatim>\<open>np.max\<close>: NaN propagates; an empty array raises.\<close>

definition np_min :: "fval list \<Rightarrow> pyexc + fval" where
  "np_min xs = (case xs of [] \<Rightarrow> Inl ZeroSizeReduction | x # rest \<Rightarrow> Inr (fold fmin2 rest x))"

definition np_max :: "fval list \<Rightarrow> pyexc + fval" where
  "np_max xs = (case xs of [] \<Rightarrow> Inl ZeroSizeReduction | x # rest \<Rightarrow> Inr (fold fmax2 rest x))"

text \<open>\<^verbatim>\<open>np.nanmax\<close>: NaNs are skipped; NaN if nothing else is there; an empty array raises.\<close>

definition np_nanmax :: "fval list \<Rightarrow> pyexc + fval" where
  "np_nanmax xs =
     (case xs of
        [] \<Rightarrow> Inl ZeroSizeReduction
      | _ # _ \<Rightarrow> (case filter (\<lambda>v. v \<noteq> NaN) xs of
                    [] \<Rightarrow> Inr NaN
                  | y # ys \<Rightarrow> Inr (fold fmax2 ys y)))"

text \<open>\<^verbatim>\<open>img[..., c]\<close> of an array whose last axis has length 3.\<close>

definition channel :: "nat \<Rightarrow> fval list \<Rightarrow> fval list" where
  "channel c xs = map (\<lambda>k. xs ! (3 * k + c)) [0..<length xs div 3]"

definition per_channel :: "(fval list \<Rightarrow> pyexc + fval) \<Rightarrow> fval list \<Rightarrow> pyexc + fval list" where
  "per_channel f xs =
     bind_exc (f (channel 0 xs)) (\<lambda>a.
     bind_exc (f (channel 1 xs)) (\<lambda>b.
     bind_exc (f (channel 2 xs)) (\<lambda>c. Inr [a, b, c])))"

section \<open>The module\<close>

subsection \<open>\<^verbatim>\<open>_ensure_u8_3c\<close>\<close>

text \<open>The double \<^verbatim>\<open>1.0 + 1e-6\<close>, and the double \<^verbatim>\<open>1.1\<close>, as exact rationals.\<close>

definition thr_unit :: fval where
  "thr_unit = Fin (4503604130970123 / 4503599627370496)"

definition thr_11 :: fval where
  "thr_11 = Fin (2476979795053773 / 2251799813685248)"

definition ensure_u8_3c :: "env \<Rightarrow> ndarray \<Rightarrow> pyexc + ndarray" where
  "ensure_u8_3c env img =
     (if \<not> (ndim img = 3 \<and> shape img ! 2 = 3) then Inl (ShapeError (shape img))
      else if dtype img = UInt8 then Inr img
      else bind_exc (np_nanmax (data img)) (\<lambda>mx.
        if fle mx thr_unit
        then Inr \<lparr>dtype = UInt8, shape = shape img,
                  data = map (\<lambda>x. astype_u8 env (np_rint (fmul (dtype img) (np_clip x 0 1) (Fin 255))))
                           (data img)\<rparr>
        else Inr \<lparr>dtype = UInt8, shape = shape img,
                  data = map (\<lambda>x. astype_u8 env (np_rint (np_clip x 0 255))) (data img)\<rparr>))"

subsection \<open>\<^verbatim>\<open>_mse\<close>\<close>

text \<open>
  Both arrays are cast to float32, subtracted, squared and averaged.  Arrays of different
  shapes are taken to fail numpy's broadcast (OpenCV's conversions keep the shape).
\<close>

definition mse :: "env \<Rightarrow> ndarray \<Rightarrow> ndarray \<Rightarrow> pyexc + fval" where
  "mse env a b =
     (let a32 = map (astype_f Float32) (data a);
          b32 = map (astype_f Float32) (data b)
      in if shape a = shape b
         then Inr (mean_f32 env (map2 (\<lambda>x y. let d = fsub Float32 x y in fmul Float32 d d) a32 b32))
         else Inl BroadcastError)"

subsection \<open>\<^verbatim>\<open>espacio_color\<close>\<close>

record info =
  espacio :: string
  info_dtype :: "np_dtype option"
  info_shape :: "nat list option"
  rangos :: "(string \<times> fval \<times> fval) list option"
  ciclos :: "(string \<times> fval) list"

text \<open>The body of the \<^verbatim>\<open>try\<close> block up to the two errors of the round trips.\<close>

definition ciclos_mse :: "env \<Rightarrow> ndarray \<Rightarrow> pyexc + fval \<times> fval" where
  "ciclos_mse env img =
     bind_exc (ensure_u8_3c env img) (\<lambda>u8.
     bind_exc (cvtColor env COLOR_YCrCb2BGR u8) (\<lambda>bgr_y.
     bind_exc (cvtColor env COLOR_BGR2YCrCb bgr_y) (\<lambda>rec_y.
     bind_exc (mse env rec_y u8) (\<lambda>mse_y.
     bind_exc (cvtColor env COLOR_Lab2BGR u8) (\<lambda>bgr_l.
     bind_exc (cvtColor env COLOR_BGR2Lab bgr_l) (\<lambda>rec_l.
     bind_exc (mse env rec_l u8) (\<lambda>mse_l. Inr (mse_y, mse_l))))))))"

text \<open>Step 5 and 6 of the source: the default label, or none.\<close>

definition bgr_default :: "np_dtype \<Rightarrow> fval list \<Rightarrow> info \<Rightarrow> info" where
  "bgr_default d cmax info =
     (if d = UInt8 \<and> list_all (\<lambda>m. fle m (Fin 255)) cmax then info\<lparr>espacio := ''BGR/RGB''\<rparr>
      else if is_floating d \<and> list_all (\<lambda>m. fle m thr_unit) cmax then info\<lparr>espacio := ''BGR/RGB''\<rparr>
      else info)"

definition espacio_color :: "env \<Rightarrow> ndarray option \<Rightarrow> pyexc + info" where
  "espacio_color env img_opt =
     (let info = \<lparr>espacio = ''Desconocido'', info_dtype = None, info_shape = None,
                 rangos = None, ciclos = []\<rparr>
      in case img_opt of
           None \<Rightarrow> Inr info
         | Some img \<Rightarrow>
             let info = info\<lparr>info_dtype := Some (dtype img), info_shape := Some (shape img)\<rparr>
             in if ndim img = 2 then
                  bind_exc (np_min (data img)) (\<lambda>cmin.
                  bind_exc (np_max (data img)) (\<lambda>cmax.
                    Inr (info\<lparr>espacio := ''GRAY'',
                             rangos := Some [(''Canal'', py_round 2 cmin, py_round 2 cmax)]\<rparr>)))
                else if \<not> (ndim img = 3 \<and> shape img ! 2 = 3) then Inr info
                else
                  bind_exc (per_channel np_min (data img)) (\<lambda>cmin.
                  bind_exc (per_channel np_max (data img)) (\<lambda>cmax.
                    let info = info\<lparr>rangos := Some
                                [(''C0'', py_round 2 (cmin ! 0), py_round 2 (cmax ! 0)),
                                 (''C1'', py_round 2 (cmin ! 1), py_round 2 (cmax ! 1)),
                                 (''C2'', py_round 2 (cmin ! 2), py_round 2 (cmax ! 2))]\<rparr>;
                        d = dtype img
                    in if d = UInt8 \<and> fle (cmax ! 0) (Fin 180) \<and> fle (cmax ! 1) (Fin 255)
                          \<and> fle (cmax ! 2) (Fin 255)
                       then Inr (info\<lparr>espacio := ''HSV''\<rparr>)
                       else if is_floating d \<and> fle (cmax ! 0) (Fin 360) \<and> fle (cmax ! 1) thr_11
                          \<and> fle (cmax ! 2) thr_11
                       then Inr (info\<lparr>espacio := ''HSV''\<rparr>)
                       else (case ciclos_mse env img of
                               Inr (mse_y, mse_l) \<Rightarrow>
                                 let info = info\<lparr>ciclos := [(''YCrCb_mse'', py_round 3 mse_y),
                                                          (''Lab_mse'', py_round 3 mse_l)]\<rparr>
                                 in if flt mse_y (Fin (1 / 2)) \<or> flt mse_l (Fin (1 / 2))
                                    then Inr (info\<lparr>espacio := ''Lab/YCrCb''\<rparr>)
                                    else Inr (bgr_default d cmax info)
                             | Inl _ \<Rightarrow> Inr (bgr_default d cmax info)))))"

subsection \<open>\<^verbatim>\<open>convertir_espacio_color\<close>\<close>

definition conversiones :: "((string \<times> string) \<times> cvcode) list" where
  "conversiones =
     [((''BGR/RGB'', ''HSV''), COLOR_BGR2HSV),
      ((''BGR/RGB'', ''Lab''), COLOR_BGR2Lab),
      ((''BGR/RGB'', ''GRAY''), COLOR_BGR2GRAY),
      ((''HSV'', ''BGR/RGB''), COLOR_HSV2BGR),
      ((''Lab'', ''BGR/RGB''), COLOR_Lab2BGR),
      ((''GRAY'', ''BGR/RGB''), COLOR_GRAY2BGR)]"

definition convertir_espacio_color :: "env \<Rightarrow> ndarray option \<Rightarrow> string \<Rightarrow> pyexc + ndarray" where
  "convertir_espacio_color env img_opt espacio_destino =
     bind_exc (espacio_color env img_opt) (\<lambda>info_original.
       let espacio_original = espacio info_original;
           clave = (espacio_original, espacio_destino)
       in case map_of conversiones clave of
            Some code \<Rightarrow> (case img_opt of Some img \<Rightarrow> cvtColor env code img | None \<Rightarrow> Inl Cv2Error)
          | None \<Rightarrow> Inl (UnsupportedConversion espacio_original espacio_destino))"

subsection \<open>\<^verbatim>\<open>modificar_canal\<close>\<close>

definition modificar_canal :: "env \<Rightarrow> ndarray \<Rightarrow> string \<Rightarrow> fval \<Rightarrow> ndarray" where
  "modificar_canal env canal operacion factor =
     (let canal_mod = map (astype_f Float32) (data canal);
          f = astype_f Float32 factor;
          canal_mod =
            (if operacion = ''brillo'' then
               map (\<lambda>x. np_clip (fmul Float32 x f) 0 255) canal_mod
             else if operacion = ''contraste'' then
               let mean_val = mean_f32 env canal_mod
               in map (\<lambda>x. np_clip (fadd Float32 (fmul Float32 (fsub Float32 x mean_val) f) mean_val)
                              0 255) canal_mod
             else if operacion = ''invertir'' then
               map (\<lambda>x. fsub Float32 (Fin 255) x) canal_mod
             else canal_mod)
      in \<lparr>dtype = UInt8, shape = shape canal, data = map (astype_u8 env) canal_mod\<rparr>)"

section \<open>Concrete inputs and environments\<close>

text \<open>
  Closed instances of the theorems below need a concrete environment.  \<open>seq_mean_f32\<close> is
  a float32 mean that adds from left to right; it agrees with numpy's whenever every partial
  sum is exact.  In \<open>env_nocv\<close> OpenCV rejects every call.
\<close>

definition seq_mean_f32 :: "fval list \<Rightarrow> fval" where
  "seq_mean_f32 xs =
     (if xs = [] then NaN
      else case fold (\<lambda>x s. fadd Float32 s x) xs (Fin 0) of
             Fin s \<Rightarrow> fl Float32 (s / of_nat (length xs))
           | v \<Rightarrow> v)"

definition env_nocv :: env where
  "env_nocv = \<lparr>cvtColor = (\<lambda>code img. Inl Cv2Error), mean_f32 = seq_mean_f32,
               cast_oor = (\<lambda>v. 0)\<rparr>"

text \<open>The 100 x 100 x 3 float array filled with 0.5.\<close>

definition img_half :: ndarray where
  "img_half = \<lparr>dtype = Float64, shape = [100, 100, 3], data = replicate 30000 (Fin (1 / 2))\<rparr>"

text \<open>What \<open>espacio_color\<close> has recorded once the element type and the shape are known.\<close>

definition info0 :: "ndarray \<Rightarrow> info" where
  "info0 img = \<lparr>espacio = ''Desconocido'', info_dtype = Some (dtype img),
     info_shape = Some (shape img), rangos = None, ciclos = []\<rparr>"

section \<open>The classifier, path by path\<close>

lemma espacio_color_None:
  "espacio_color env None = Inr \<lparr>espacio = ''Desconocido'', info_dtype = None, info_shape = None,
                 rangos = None, ciclos = []\<rparr>"
  by (simp add: espacio_color_def)

lemma espacio_color_gray:
  "ndim img = 2 \<Longrightarrow> espacio_color env (Some img) =
     bind_exc (np_min (data img)) (\<lambda>cmin. bind_exc (np_max (data img)) (\<lambda>cmax.
       Inr ((info0 img)\<lparr>espacio := ''GRAY'',
              rangos := Some [(''Canal'', py_round 2 cmin, py_round 2 cmax)]\<rparr>)))"
  by (simp add: espacio_color_def info0_def)

lemma espacio_color_other:
  "ndim img \<noteq> 2 \<Longrightarrow> \<not> (ndim img = 3 \<and> shape img ! 2 = 3) \<Longrightarrow>
     espacio_color env (Some img) = Inr (info0 img)"
  by (simp add: espacio_color_def info0_def)

lemma per_channel_Inr: "per_channel f xs = Inr cm \<Longrightarrow> \<exists>a b c. cm = [a, b, c]"
  by (auto simp: per_channel_def bind_exc_def split: sum.splits)

lemma espacio_color_3c:
  assumes "ndim img = 3" "shape img ! 2 = 3"
    and "per_channel np_min (data img) = Inr [a0, a1, a2]"
    and "per_channel np_max (data img) = Inr [b0, b1, b2]"
  shows "espacio_color env (Some img) =
    (let info = (info0 img)\<lparr>rangos := Some [(''C0'', py_round 2 a0, py_round 2 b0),
               (''C1'', py_round 2 a1, py_round 2 b1), (''C2'', py_round 2 a2, py_round 2 b2)]\<rparr>;
         d = dtype img
     in if d = UInt8 \<and> fle b0 (Fin 180) \<and> fle b1 (Fin 255) \<and> fle b2 (Fin 255)
        then Inr (info\<lparr>espacio := ''HSV''\<rparr>)
        else if is_floating d \<and> fle b0 (Fin 360) \<and> fle b1 thr_11 \<and> fle b2 thr_11
        then Inr (info\<lparr>espacio := ''HSV''\<rparr>)
        else (case ciclos_mse env img of
                Inr (mse_y, mse_l) \<Rightarrow>
                  let info = info\<lparr>ciclos := [(''YCrCb_mse'', py_round 3 mse_y),
                                           (''Lab_mse'', py_round 3 mse_l)]\<rparr>
                  in if flt mse_y (Fin (1 / 2)) \<or> flt mse_l (Fin (1 / 2))
                     then Inr (info\<lparr>espacio := ''Lab/YCrCb''\<rparr>)
                     else Inr (bgr_default d [b0, b1, b2] info)
              | Inl _ \<Rightarrow> Inr (bgr_default d [b0, b1, b2] info)))"
  using assms
  by (simp add: espacio_color_def bind_exc_def info0_def Let_def split: sum.split prod.split)

subsection \<open>The array filled with 0.5\<close>

lemma channel_replicate: "c < 3 \<Longrightarrow> channel c (replicate n v) = replicate (n div 3) v"
  by (auto simp: channel_def intro!: nth_equalityI)

lemma fmin2_same: "fmin2 v v = v"
  by (cases v) auto

lemma fmax2_same: "fmax2 v v = v"
  by (cases v) auto

lemma fold_fmin2_same: "fold fmin2 (replicate k v) v = v"
  by (induction k) (simp_all add: fmin2_same del: fmin2.simps)

lemma fold_fmax2_same: "fold fmax2 (replicate k v) v = v"
  by (induction k) (simp_all add: fmax2_same del: fmax2.simps)

lemma np_min_replicate: "0 < n \<Longrightarrow> np_min (replicate n v) = Inr v"
  by (cases n) (simp_all add: np_min_def fold_fmin2_same del: fold_replicate)

lemma np_max_replicate: "0 < n \<Longrightarrow> np_max (replicate n v) = Inr v"
  by (cases n) (simp_all add: np_max_def fold_fmax2_same del: fold_replicate)

lemma py_round_half: "py_round 2 (Fin (1 / 2)) = Fin (1 / 2)"
  by code_simp

lemma img_half_info:
  "espacio_color env (Some img_half) =
     Inr \<lparr>espacio = ''HSV'', info_dtype = Some Float64, info_shape = Some [100, 100, 3],
          rangos = Some [(''C0'', Fin (1 / 2), Fin (1 / 2)), (''C1'', Fin (1 / 2), Fin (1 / 2)),
                         (''C2'', Fin (1 / 2), Fin (1 / 2))],
          ciclos = []\<rparr>"
proof -
  have pc: "per_channel np_min (data img_half) = Inr [Fin (1 / 2), Fin (1 / 2), Fin (1 / 2)]"
       "per_channel np_max (data img_half) = Inr [Fin (1 / 2), Fin (1 / 2), Fin (1 / 2)]"
    by (simp_all add: per_channel_def img_half_def channel_replicate np_min_replicate
        np_max_replicate bind_exc_def)
  have s: "ndim img_half = 3" "shape img_half ! 2 = 3" "dtype img_half = Float64"
    by (simp_all add: img_half_def ndim_def)
  show ?thesis
    by (simp add: espacio_color_3c[OF s(1,2) pc] s(3) py_round_half thr_11_def info0_def
          del: py_round.simps)
       (simp add: img_half_def)
qed

section \<open>Claims\<close>

text \<open>
  C1.  The spec's scenario: the 100 x 100 x 3 float array filled with 0.5 is to be classified
  as BGR/RGB, and its conversion to HSV is to succeed.  The code does neither: the float rule
  for HSV (line 62) comes first and accepts the array, so the label is HSV, and the pair
  (HSV, HSV) is not in the conversion table, so the conversion raises.
\<close>

theorem half_image_is_hsv:
  "espacio_color env (Some img_half) =
     Inr \<lparr>espacio = ''HSV'', info_dtype = Some Float64, info_shape = Some [100, 100, 3],
          rangos = Some [(''C0'', Fin (1 / 2), Fin (1 / 2)), (''C1'', Fin (1 / 2), Fin (1 / 2)),
                         (''C2'', Fin (1 / 2), Fin (1 / 2))],
          ciclos = []\<rparr>
   \<and> convertir_espacio_color env (Some img_half) ''HSV''
       = Inl (UnsupportedConversion ''HSV'' ''HSV'')"
  by (simp add: img_half_info convertir_espacio_color_def bind_exc_def conversiones_def Let_def)

text \<open>
  C2.  \<open>espacio_color\<close> is to return a result for every input.  On an array with no elements
  \<^verbatim>\<open>np.min\<close> raises outside the \<^verbatim>\<open>try\<close> block (line 41, and line 51 for three channels),
  and the exception reaches the caller.
\<close>

theorem empty_array_raises:
  "espacio_color env (Some \<lparr>dtype = UInt8, shape = [0, 0], data = []\<rparr>) = Inl ZeroSizeReduction
   \<and> espacio_color env (Some \<lparr>dtype = UInt8, shape = [0, 0, 3], data = []\<rparr>)
       = Inl ZeroSizeReduction"
  by (simp add: espacio_color_def ndim_def np_min_def bind_exc_def per_channel_def channel_def)

subsection \<open>C10: no float image is labelled BGR/RGB\<close>

lemma fle_thr_unit_360: "fle m thr_unit \<Longrightarrow> fle m (Fin 360)"
  by (cases m) (auto simp: thr_unit_def)

lemma fle_thr_unit_11: "fle m thr_unit \<Longrightarrow> fle m thr_11"
  by (cases m) (auto simp: thr_unit_def thr_11_def)

lemma bgr_default_floating:
  "is_floating d \<Longrightarrow> \<not> (fle a (Fin 360) \<and> fle b thr_11 \<and> fle c thr_11)
    \<Longrightarrow> bgr_default d [a, b, c] info = info"
  by (cases d) (auto simp: bgr_default_def dest: fle_thr_unit_360 fle_thr_unit_11)

text \<open>
  C10.  For an image of a floating-point type, \<open>espacio_color\<close> never returns the label
  BGR/RGB: three maxima that pass the float test of the default (line 94) pass the float test
  for HSV (line 63), which comes first.
\<close>

theorem float_never_bgr:
  assumes fl: "is_floating (dtype img)" and r: "espacio_color env (Some img) = Inr r"
  shows "espacio r \<noteq> ''BGR/RGB''"
proof (cases "ndim img = 2")
  case True
  with r show ?thesis
    by (auto simp: espacio_color_gray bind_exc_def split: sum.splits)
next
  case n2: False
  show ?thesis
  proof (cases "ndim img = 3 \<and> shape img ! 2 = 3")
    case False
    with n2 r show ?thesis
      by (auto simp: espacio_color_other info0_def)
  next
    case True
    from True n2 r obtain cmin cmax where
      mn: "per_channel np_min (data img) = Inr cmin" and
      mx: "per_channel np_max (data img) = Inr cmax"
      by (auto simp: espacio_color_def bind_exc_def split: sum.splits)
    from per_channel_Inr[OF mn] per_channel_Inr[OF mx]
    obtain a0 a1 a2 b0 b1 b2 where cm: "cmin = [a0, a1, a2]" "cmax = [b0, b1, b2]"
      by blast
    note unf = espacio_color_3c[OF _ _ mn[unfolded cm] mx[unfolded cm], of env]
    show ?thesis
    proof (cases "fle b0 (Fin 360) \<and> fle b1 thr_11 \<and> fle b2 thr_11")
      case h: True
      with True r fl show ?thesis
        by (auto simp: unf Let_def split: if_splits)
    next
      case h: False
      from bgr_default_floating[OF fl h]
      have "\<And>i. bgr_default (dtype img) [b0, b1, b2] i = i" .
      with True r fl h show ?thesis
        by (auto simp: unf Let_def info0_def split: sum.splits prod.splits if_splits)
    qed
  qed
qed

theorem float_never_bgr_witness:
  "is_floating (dtype img_half)
   \<and> (\<exists>r. espacio_color env_nocv (Some img_half) = Inr r \<and> espacio r \<noteq> ''BGR/RGB'')"
proof -
  have f: "is_floating (dtype img_half)" by (simp add: img_half_def)
  from float_never_bgr[OF f img_half_info[of env_nocv]] f img_half_info[of env_nocv]
  show ?thesis by simp
qed

end
